theory Spec2Isabelle
  imports Complex_Main "HOL-Library.FSet" "HOL-Library.Multiset"
begin

section \<open>Data model (types.ts as used by App.tsx and GenomeVisualizer.tsx)\<close>

text \<open>
  The components read \<open>plant.id\<close>, \<open>plant.genome.loci[i]\<close>, the optional
  \<open>plant.genome.diploid\<close> (every use is guarded by \<open>?\<close>), \<open>plant.phenotype\<close>,
  \<open>plant.breedingValue\<close> and \<open>plant.isHeterozygous\<close>. JavaScript numbers are
  modelled as reals; the one place where the source can produce \<open>NaN\<close> (a division
  \<open>0 / 0\<close>) is written out.
\<close>

record AllelePair =
  maternal :: bool
  paternal :: bool

record Genome =
  loci :: "nat list"
  diploid :: "AllelePair list option"

record TraitValues =
  yield :: real
  resistance :: real
  height :: real

record Plant =
  plant_id :: string
  genome :: Genome
  phenotype :: TraitValues
  breedingValue :: TraitValues
  isHeterozygous :: bool

record PopulationStats =
  stats_generation :: nat
  meanYield :: real
  meanResistance :: real
  meanHeight :: real

datatype weather = sunny | cloudy | rainy

datatype number = NaN | Infinity | Num real

datatype Trait = Yield | Resistance | Height

datatype error = InvalidInput | ServiceFailure

section \<open>constants.ts\<close>

text \<open>
  Modelled from the spec: \<open>constants.ts\<close> is missing. The names the components
  import (\<open>POPULATION_SIZE\<close>, \<open>INITIAL_ENV_VARIANCE\<close>, the three locus groups and the
  two pleiotropic ranges) are taken as parameters, together with the numbers the
  design leaves open: the additive effect weight of each locus, the trade-off and link
  coefficients, the founder allele frequency and the linkage strength, the last two in
  percent.
\<close>

record Constants =
  POPULATION_SIZE :: nat
  INITIAL_ENV_VARIANCE :: real
  YIELD_LOCI :: "nat list"
  RESISTANCE_LOCI :: "nat list"
  HEIGHT_LOCI :: "nat list"
  PLEIOTROPIC_YIELD_RESISTANCE :: "nat list"
  PLEIOTROPIC_HEIGHT_YIELD :: "nat list"
  effectWeight :: "nat \<Rightarrow> real"
  tradeOffCoefficient :: real
  linkCoefficient :: real
  founderAllelePercent :: nat
  linkagePercent :: nat

definition numLoci :: "Constants \<Rightarrow> nat" where
  "numLoci c = length (YIELD_LOCI c) + length (RESISTANCE_LOCI c) + length (HEIGHT_LOCI c)"

section \<open>GenomeVisualizer.tsx\<close>

text \<open>
  \<^verbatim>\<open>const hetCount = plant.genome.diploid ?
    plant.genome.diploid.filter(a => a.maternal !== a.paternal).length : 0;\<close>
\<close>

definition hetCount :: "Genome \<Rightarrow> nat" where
  "hetCount g =
     (case diploid g of
        Some ps \<Rightarrow> length (filter (\<lambda>a. maternal a \<noteq> paternal a) ps)
      | None \<Rightarrow> 0)"

text \<open>
  The division of two array lengths. JavaScript throws nothing on a zero divisor:
  \<open>0 / 0\<close> is \<open>NaN\<close> and \<open>n / 0\<close> is \<open>Infinity\<close>.
\<close>

definition js_div :: "nat \<Rightarrow> nat \<Rightarrow> number" where
  "js_div a b =
     (if b = 0 then (if a = 0 then NaN else Infinity) else Num (real a / real b))"

definition times100 :: "number \<Rightarrow> number" where
  "times100 x = (case x of NaN \<Rightarrow> NaN | Infinity \<Rightarrow> Infinity | Num r \<Rightarrow> Num (r * 100))"

fun show_nat :: "nat \<Rightarrow> string" where
  "show_nat n =
     (if n < 10 then [''0123456789'' ! n]
      else show_nat (n div 10) @ [''0123456789'' ! (n mod 10)])"

declare show_nat.simps [simp del]

text \<open>
  \<open>Number.prototype.toFixed(1)\<close> on a non-negative number: the decimal text of the
  nearest multiple of one tenth (the larger one on a tie); \<open>"NaN"\<close> and
  \<open>"Infinity"\<close> for the two non-finite values.
\<close>

definition toFixed1 :: "number \<Rightarrow> string" where
  "toFixed1 x =
     (case x of
        NaN \<Rightarrow> ''NaN''
      | Infinity \<Rightarrow> ''Infinity''
      | Num r \<Rightarrow>
          (let n = nat \<lfloor>r * 10 + 1 / 2\<rfloor>
           in show_nat (n div 10) @ ''.'' @ show_nat (n mod 10)))"

text \<open>The heterozygosity fraction, the operand of \<open>* 100\<close> in \<open>hetPercent\<close>.\<close>

definition hetFraction :: "Genome \<Rightarrow> number option" where
  "hetFraction g =
     (case diploid g of
        Some ps \<Rightarrow> Some (js_div (hetCount g) (length ps))
      | None \<Rightarrow> None)"

text \<open>
  \<^verbatim>\<open>const hetPercent = plant.genome.diploid ?
    ((hetCount / plant.genome.diploid.length) * 100).toFixed(1) : '0';\<close>
\<close>

definition hetPercent :: "Genome \<Rightarrow> string" where
  "hetPercent g =
     (case hetFraction g of
        Some q \<Rightarrow> toFixed1 (times100 q)
      | None \<Rightarrow> ''0'')"

text \<open>Array indexing: \<open>xs[i]\<close> is \<open>undefined\<close> out of range.\<close>

definition nth_opt :: "'a list \<Rightarrow> nat \<Rightarrow> 'a option" where
  "nth_opt xs i = (if i < length xs then Some (xs ! i) else None)"

record LocusView =
  val :: "nat option"
  isHet :: bool
  isPleiotropic :: bool
  bgColor :: string
  borderColor :: string
  genotype :: string
  maternalClass :: string
  paternalClass :: string

text \<open>The values \<open>renderLocus(index)\<close> computes before it builds the markup.\<close>

definition renderLocus :: "Constants \<Rightarrow> Plant \<Rightarrow> nat \<Rightarrow> LocusView" where
  "renderLocus c plant index =
     (let v = nth_opt (loci (genome plant)) index;
          d = (case diploid (genome plant) of Some ps \<Rightarrow> nth_opt ps index | None \<Rightarrow> None);
          isYield = (index \<in> set (YIELD_LOCI c));
          isRes = (index \<in> set (RESISTANCE_LOCI c));
          isHeight = (index \<in> set (HEIGHT_LOCI c));
          pleio = (index \<in> set (PLEIOTROPIC_YIELD_RESISTANCE c)
                   \<or> index \<in> set (PLEIOTROPIC_HEIGHT_YIELD c));
          het = (case d of Some a \<Rightarrow> maternal a \<noteq> paternal a | None \<Rightarrow> v = Some 1);
          bg = (if v = Some 2 then
                  (if isYield then ''bg-green-500'' else if isRes then ''bg-yellow-500''
                   else if isHeight then ''bg-blue-500'' else ''bg-gray-700'')
                else if v = Some 1 then
                  (if isYield then ''bg-green-700'' else if isRes then ''bg-yellow-700''
                   else if isHeight then ''bg-blue-700'' else ''bg-gray-700'')
                else ''bg-gray-800'');
          border = (if v = Some 1 then ''border-white/40'' else ''border-gray-600'')
      in \<lparr> val = v, isHet = het, isPleiotropic = pleio, bgColor = bg, borderColor = border,
           genotype = (if v = Some 2 then ''AA'' else if v = Some 1 then ''Aa'' else ''aa''),
           maternalClass = (case d of Some a \<Rightarrow> if maternal a then bg else ''bg-gray-800''
                                     | None \<Rightarrow> ''bg-gray-800''),
           paternalClass = (case d of Some a \<Rightarrow> if paternal a then bg else ''bg-gray-800''
                                     | None \<Rightarrow> ''bg-gray-800'') \<rparr>)"

section \<open>utils/geneticsEngine.ts\<close>

text \<open>
  Modelled from the spec: \<open>utils/geneticsEngine.ts\<close> (\<open>createInitialPopulation\<close>,
  \<open>breedNextGeneration\<close>, \<open>calculateStats\<close> and what they call) is missing; the
  definitions of this section follow sections 3 and 4 of the design. The random source
  is explicit, as the design notes ask: \<open>pick k\<close> is the \<open>k\<close>-th integer draw and
  \<open>gauss k\<close> the \<open>k\<close>-th unit deviate.
\<close>

record RandomSource =
  pick :: "nat \<Rightarrow> nat"
  gauss :: "nat \<Rightarrow> real"

text \<open>Modelled from the spec: the dosage of an allele pair, \<open>(maternal?1:0) + (paternal?1:0)\<close>.\<close>

definition dosage :: "AllelePair \<Rightarrow> nat" where
  "dosage a = (if maternal a then 1 else 0) + (if paternal a then 1 else 0)"

text \<open>Modelled from the spec: a genome is its allele pairs plus the derived dosage sequence.\<close>

definition makeGenome :: "AllelePair list \<Rightarrow> Genome" where
  "makeGenome ps = \<lparr> loci = map dosage ps, diploid = Some ps \<rparr>"

subsection \<open>Locus Map\<close>

text \<open>
  Modelled from the spec: a pleiotropic relation names the trait of the locus's own
  group and the other trait it acts on.
\<close>

datatype PleiotropicRelation = NoRelation | TradeOff Trait Trait | PositiveLink Trait Trait

text \<open>Modelled from the spec: \<open>traitGroup(locus)\<close>, the chromosome group of a locus.\<close>

definition traitGroup :: "Constants \<Rightarrow> nat \<Rightarrow> Trait" where
  "traitGroup c l =
     (if l \<in> set (YIELD_LOCI c) then Yield
      else if l \<in> set (RESISTANCE_LOCI c) then Resistance
      else Height)"

text \<open>
  Modelled from the spec: \<open>pleiotropicRelation(locus)\<close>. A locus of the yield/resistance
  range trades its own trait off against the other of the two; a locus of the
  height/yield range is linked positively to the other of those two.
\<close>

definition pleiotropicRelation :: "Constants \<Rightarrow> nat \<Rightarrow> PleiotropicRelation" where
  "pleiotropicRelation c l =
     (if l \<in> set (PLEIOTROPIC_YIELD_RESISTANCE c) then
        TradeOff (traitGroup c l) (if traitGroup c l = Yield then Resistance else Yield)
      else if l \<in> set (PLEIOTROPIC_HEIGHT_YIELD c) then
        PositiveLink (traitGroup c l) (if traitGroup c l = Height then Yield else Height)
      else NoRelation)"

subsection \<open>Phenotype / Breeding-Value Calculator\<close>

text \<open>
  Modelled from the spec: what one unit of dosage at locus \<open>l\<close> adds to the breeding
  value of trait \<open>t\<close>: the effect weight for the trait of the locus's own group, and for
  the other trait of a pleiotropic relation the weight scaled by the trade-off
  coefficient (subtracted) or by the link coefficient (added).
\<close>

definition locusEffect :: "Constants \<Rightarrow> Trait \<Rightarrow> nat \<Rightarrow> real" where
  "locusEffect c t l =
     (if traitGroup c l = t then effectWeight c l else 0) +
     (case pleiotropicRelation c l of
        NoRelation \<Rightarrow> 0
      | TradeOff own other \<Rightarrow> (if other = t then - (tradeOffCoefficient c * effectWeight c l) else 0)
      | PositiveLink own other \<Rightarrow> (if other = t then linkCoefficient c * effectWeight c l else 0))"

text \<open>Modelled from the spec: the breeding value (GEBV) of a trait, genotype only.\<close>

definition calculateBreedingValue :: "Constants \<Rightarrow> Genome \<Rightarrow> Trait \<Rightarrow> real" where
  "calculateBreedingValue c g t =
     sum_list (map (\<lambda>l. locusEffect c t l * real (loci g ! l)) [0..<length (loci g)])"

text \<open>
  Modelled from the spec: the phenotype of a trait, the breeding value plus one
  environmental deviation, a unit deviate \<open>z\<close> scaled by the environmental variance.
\<close>

definition calculatePhenotype :: "Constants \<Rightarrow> Genome \<Rightarrow> real \<Rightarrow> real \<Rightarrow> Trait \<Rightarrow> real" where
  "calculatePhenotype c g envVar z t = calculateBreedingValue c g t + envVar * z"

text \<open>
  Modelled from the spec: materialising a plant. The derived fields are computed from
  the genome; \<open>k\<close> is the position of the plant's three deviates in the random source.
\<close>

definition makePlant :: "Constants \<Rightarrow> RandomSource \<Rightarrow> nat \<Rightarrow> string \<Rightarrow> Genome \<Rightarrow> real \<Rightarrow> Plant" where
  "makePlant c rs k ident g envVar =
     \<lparr> plant_id = ident,
       genome = g,
       phenotype = \<lparr> yield = calculatePhenotype c g envVar (gauss rs k) Yield,
                     resistance = calculatePhenotype c g envVar (gauss rs (k + 1)) Resistance,
                     height = calculatePhenotype c g envVar (gauss rs (k + 2)) Height \<rparr>,
       breedingValue = \<lparr> yield = calculateBreedingValue c g Yield,
                         resistance = calculateBreedingValue c g Resistance,
                         height = calculateBreedingValue c g Height \<rparr>,
       isHeterozygous = (0 < hetCount g) \<rparr>"

text \<open>Modelled from the spec: identifiers are generation-stamped.\<close>

definition makeId :: "nat \<Rightarrow> nat \<Rightarrow> string" where
  "makeId gen i = ''F'' @ show_nat gen @ ''-'' @ show_nat i"

subsection \<open>Population Initializer\<close>

text \<open>
  Modelled from the spec: founder \<open>i\<close> draws, for each locus independently, the maternal
  and the paternal allele at the founder allele frequency.
\<close>

definition founderPairs :: "Constants \<Rightarrow> RandomSource \<Rightarrow> nat \<Rightarrow> AllelePair list" where
  "founderPairs c rs i =
     map (\<lambda>l. \<lparr> maternal = (pick rs (2 * (i * numLoci c + l)) mod 100 < founderAllelePercent c),
                paternal = (pick rs (2 * (i * numLoci c + l) + 1) mod 100 < founderAllelePercent c) \<rparr>)
         [0..<numLoci c]"

text \<open>Modelled from the spec: \<open>createInitialPopulation(envVariance)\<close>, generation 1.\<close>

definition createInitialPopulation :: "Constants \<Rightarrow> RandomSource \<Rightarrow> real \<Rightarrow> Plant list" where
  "createInitialPopulation c rs envVar =
     map (\<lambda>i. makePlant c rs (3 * i) (makeId 1 i) (makeGenome (founderPairs c rs i)) envVar)
         [0..<POPULATION_SIZE c]"

subsection \<open>Meiosis / Crossing Engine\<close>

text \<open>Modelled from the spec: two neighbouring loci of one pleiotropic range form a linked block.\<close>

definition linkedToPrevious :: "Constants \<Rightarrow> nat \<Rightarrow> bool" where
  "linkedToPrevious c l =
     (0 < l \<and>
      ((l \<in> set (PLEIOTROPIC_YIELD_RESISTANCE c) \<and> l - 1 \<in> set (PLEIOTROPIC_YIELD_RESISTANCE c)) \<or>
       (l \<in> set (PLEIOTROPIC_HEIGHT_YIELD c) \<and> l - 1 \<in> set (PLEIOTROPIC_HEIGHT_YIELD c))))"

text \<open>
  Modelled from the spec: gamete formation. At each locus one of the parent's two
  strands is chosen: with even odds at an unlinked locus, and inside a linked block the
  strand of the previous locus is kept with the linkage probability. \<open>k\<close> is the
  position in the random source, \<open>l\<close> the locus, \<open>prev\<close> the strand chosen last
  (\<open>True\<close> for the maternal one).
\<close>

fun formGamete :: "Constants \<Rightarrow> RandomSource \<Rightarrow> nat \<Rightarrow> nat \<Rightarrow> bool \<Rightarrow> AllelePair list \<Rightarrow> bool list" where
  "formGamete c rs k l prev [] = []"
| "formGamete c rs k l prev (a # as) =
     (let strand = (if linkedToPrevious c l
                    then (if pick rs k mod 100 < linkagePercent c then prev else \<not> prev)
                    else pick rs k mod 2 = 0)
      in (if strand then maternal a else paternal a)
         # formGamete c rs (Suc k) (Suc l) strand as)"

text \<open>
  Modelled from the spec: \<open>cross(parentA, parentB)\<close>. The maternal gamete comes from
  parent A and the paternal one from parent B; a genome without allele pairs or with
  another locus count is an invalid input.
\<close>

definition cross :: "Constants \<Rightarrow> RandomSource \<Rightarrow> nat \<Rightarrow> Genome \<Rightarrow> Genome \<Rightarrow> error + Genome" where
  "cross c rs k ga gb =
     (case (diploid ga, diploid gb) of
        (Some pa, Some pb) \<Rightarrow>
          (if length pa \<noteq> numLoci c \<or> length pb \<noteq> numLoci c then Inl InvalidInput
           else Inr (makeGenome
                  (map (\<lambda>(m, p). \<lparr> maternal = m, paternal = p \<rparr>)
                     (zip (formGamete c rs k 0 True pa)
                          (formGamete c rs (k + numLoci c) 0 True pb)))))
      | _ \<Rightarrow> Inl InvalidInput)"

subsection \<open>Generation Advancer\<close>

text \<open>
  Modelled from the spec: offspring \<open>i\<close> of the next generation. Two distinct parents
  are picked from the selected ones, crossed once, and the offspring is measured under
  the generation's environmental variance.
\<close>

definition breedOne :: "Constants \<Rightarrow> RandomSource \<Rightarrow> Plant list \<Rightarrow> nat \<Rightarrow> real \<Rightarrow> nat \<Rightarrow> error + Plant" where
  "breedOne c rs parents gen envVar i =
     (let n = length parents;
          k = i * (2 * numLoci c + 2);
          a = pick rs k mod n;
          b0 = pick rs (k + 1) mod (n - 1);
          b = (if a \<le> b0 then b0 + 1 else b0)
      in case cross c rs (k + 2) (genome (parents ! a)) (genome (parents ! b)) of
           Inl e \<Rightarrow> Inl e
         | Inr g \<Rightarrow> Inr (makePlant c rs (3 * i) (makeId gen i) g envVar))"

text \<open>
  Modelled from the spec: the loop that fills the population; the first failure ends
  it, as a \<open>throw\<close> does.
\<close>

fun breedAll :: "Constants \<Rightarrow> RandomSource \<Rightarrow> Plant list \<Rightarrow> nat \<Rightarrow> real \<Rightarrow> nat list \<Rightarrow> error + Plant list" where
  "breedAll c rs parents gen envVar [] = Inr []"
| "breedAll c rs parents gen envVar (i # is) =
     (case breedOne c rs parents gen envVar i of
        Inl e \<Rightarrow> Inl e
      | Inr p \<Rightarrow>
          (case breedAll c rs parents gen envVar is of
             Inl e \<Rightarrow> Inl e
           | Inr ps \<Rightarrow> Inr (p # ps)))"

text \<open>
  Modelled from the spec: \<open>breedNextGeneration(selectedParents, generation, envVariance)\<close>.
  Fewer than two parents are rejected; the offspring carry the new generation number.
\<close>

definition breedNextGeneration :: "Constants \<Rightarrow> RandomSource \<Rightarrow> Plant list \<Rightarrow> nat \<Rightarrow> real \<Rightarrow> error + Plant list" where
  "breedNextGeneration c rs parents gen envVar =
     (if length parents < 2 then Inl InvalidInput
      else breedAll c rs parents (gen + 1) envVar [0..<POPULATION_SIZE c])"

subsection \<open>Statistics Aggregator\<close>

text \<open>Modelled from the spec: the arithmetic mean.\<close>

definition mean :: "real list \<Rightarrow> real" where
  "mean xs = sum_list xs / real (length xs)"

text \<open>
  Modelled from the spec: \<open>calculateStats(population, generation)\<close>, the per-trait means
  of the phenotypes tagged with the generation number; an empty population is an
  invalid input.
\<close>

definition calculateStats :: "Plant list \<Rightarrow> nat \<Rightarrow> error + PopulationStats" where
  "calculateStats pop gen =
     (if pop = [] then Inl InvalidInput
      else Inr \<lparr> stats_generation = gen,
                 meanYield = mean (map (\<lambda>p. yield (phenotype p)) pop),
                 meanResistance = mean (map (\<lambda>p. resistance (phenotype p)) pop),
                 meanHeight = mean (map (\<lambda>p. height (phenotype p)) pop) \<rparr>)"

section \<open>App.tsx\<close>

text \<open>
  The component's \<open>useState\<close> cells, one field each. A \<open>Set<string>\<close> is a finite
  set; the handlers only test membership and size.
\<close>

record AppState =
  generation :: nat
  population :: "Plant list"
  history :: "PopulationStats list"
  selectedIds :: "string fset"
  selectionIntensity :: real
  envVariance :: real
  genomicSelectionEnabled :: bool
  analysisMsg :: string
  scenario :: string
  lastSelectedPlant :: "Plant option"
  isProcessing :: bool
  weather :: weather
  isManualOpen :: bool
  apiKey :: string
  showApiInput :: bool
  apiConfigured :: bool
  showCrossInfo :: bool

text \<open>What a handler does besides writing state cells.\<close>

datatype effect = Alert string | ConsoleError error | SetTimeout nat

text \<open>The value a resolved \<open>generateScenario\<close> promise carries.\<close>

record Scenario =
  description :: string
  envImpact :: real

definition initialState :: "Constants \<Rightarrow> bool \<Rightarrow> AppState" where
  "initialState c apiConf =
     \<lparr> generation = 1, population = [], history = [], selectedIds = {||},
       selectionIntensity = 2 / 10, envVariance = INITIAL_ENV_VARIANCE c,
       genomicSelectionEnabled = False, analysisMsg = ''Initialize the field to begin.'',
       scenario = ''Normal Conditions'', lastSelectedPlant = None, isProcessing = False,
       weather = sunny, isManualOpen = False, apiKey = [], showApiInput = False,
       apiConfigured = apiConf, showCrossInfo = False \<rparr>"

text \<open>
  The mount effect (\<open>useEffect(..., [])\<close>). An exception thrown inside an effect
  unmounts the component, so the failure of \<open>calculateStats\<close> is the result. The
  message is the source's, with its one non-ASCII symbol written \<open>sigma^2\<close>.
\<close>

definition initialize :: "Constants \<Rightarrow> RandomSource \<Rightarrow> AppState \<Rightarrow> error + AppState" where
  "initialize c rs s =
     (let initPop = createInitialPopulation c rs (envVariance s)
      in case calculateStats initPop 1 of
           Inl e \<Rightarrow> Inl e
         | Inr initialStats \<Rightarrow>
             Inr (s\<lparr> population := initPop, history := [initialStats],
                     analysisMsg := ''Welcome, Breeder! F0 population initialized. High genetic variance (sigma^2 G) present. Use GEBV view to see true breeding values. Select parents carefully considering trait linkages.'',
                     weather := sunny \<rparr>))"

text \<open>The effect on \<open>envVariance\<close> that picks the weather.\<close>

definition updateWeather :: "AppState \<Rightarrow> AppState" where
  "updateWeather s =
     (if envVariance s < 15 / 10 then s\<lparr> weather := sunny \<rparr>
      else if envVariance s < 25 / 10 then s\<lparr> weather := cloudy \<rparr>
      else s\<lparr> weather := rainy \<rparr>)"

text \<open>
  \<^verbatim>\<open>const handlePlantClick = (id: string) => {
    const plant = population.find(p => p.id === id);
    if (plant) setLastSelectedPlant(plant);
    const newSelected = new Set(selectedIds);
    if (newSelected.has(id)) { newSelected.delete(id); } else { newSelected.add(id); }
    setSelectedIds(newSelected);
  };\<close>
\<close>

definition handlePlantClick :: "AppState \<Rightarrow> string \<Rightarrow> AppState" where
  "handlePlantClick s ident =
     (let s1 = (case find (\<lambda>p. plant_id p = ident) (population s) of
                  Some plant \<Rightarrow> s\<lparr> lastSelectedPlant := Some plant \<rparr>
                | None \<Rightarrow> s);
          newSelected = (if ident |\<in>| selectedIds s
                         then selectedIds s |-| {|ident|}
                         else finsert ident (selectedIds s))
      in s1\<lparr> selectedIds := newSelected \<rparr>)"

datatype SelectionTrait = SelYield | SelResistance | SelHeight | SelOptimum

text \<open>The value a plant is ranked by: its breeding value under genomic selection, its phenotype otherwise.\<close>

definition traitSource :: "AppState \<Rightarrow> Plant \<Rightarrow> TraitValues" where
  "traitSource s p = (if genomicSelectionEnabled s then breedingValue p else phenotype p)"

definition getValue :: "AppState \<Rightarrow> SelectionTrait \<Rightarrow> Plant \<Rightarrow> real" where
  "getValue s t p =
     (case t of
        SelOptimum \<Rightarrow> yield (traitSource s p) * (5 / 10) + resistance (traitSource s p) * (3 / 10)
                      + (height (traitSource s p) / 3) * (2 / 10)
      | SelHeight \<Rightarrow> height (traitSource s p)
      | SelYield \<Rightarrow> yield (traitSource s p)
      | SelResistance \<Rightarrow> resistance (traitSource s p))"

text \<open>
  \<open>[...population].sort(cmp)\<close>: a stable sort. The comparator is \<open>getValue(a) - getValue(b)\<close>
  for height (ascending) and \<open>getValue(b) - getValue(a)\<close> for the other three (descending).
\<close>

definition sorted_plants :: "AppState \<Rightarrow> SelectionTrait \<Rightarrow> Plant list" where
  "sorted_plants s t =
     (if t = SelHeight then sort_key (getValue s t) (population s)
      else sort_key (\<lambda>p. - getValue s t p) (population s))"

text \<open>\<open>xs.slice(0, e)\<close>: a negative end counts from the end of the array.\<close>

definition slice0 :: "'a list \<Rightarrow> int \<Rightarrow> 'a list" where
  "slice0 xs e = (if e < 0 then take (length xs - nat (- e)) xs else take (nat e) xs)"

definition selectionCount :: "Constants \<Rightarrow> AppState \<Rightarrow> int" where
  "selectionCount c s = \<lceil>real (POPULATION_SIZE c) * selectionIntensity s\<rceil>"

definition autoSelectByTrait :: "Constants \<Rightarrow> AppState \<Rightarrow> SelectionTrait \<Rightarrow> AppState" where
  "autoSelectByTrait c s t =
     s\<lparr> selectedIds :=
          fset_of_list (map plant_id (slice0 (sorted_plants s t) (selectionCount c s))) \<rparr>"

definition clearSelection :: "AppState \<Rightarrow> AppState" where
  "clearSelection s = s\<lparr> selectedIds := {||}, lastSelectedPlant := None \<rparr>"

text \<open>The \<open>catch\<close> block of \<open>advanceGeneration\<close>.\<close>

definition onError :: "AppState \<Rightarrow> error \<Rightarrow> AppState \<times> effect list" where
  "onError s e =
     (s\<lparr> analysisMsg := ''Analysis unavailable. Continue with phenotypic selection.'' \<rparr>,
      [ConsoleError e])"

text \<open>
  \<open>advanceGeneration\<close>. The two services of \<open>services/geminiService\<close> are parameters:
  each returns what its promise settles to, \<open>Inl\<close> for a rejection, which the
  \<open>await\<close> throws into the \<open>catch\<close> block. The \<open>finally\<close> block runs on every path
  after the guard.
\<close>

definition advanceGeneration ::
  "Constants \<Rightarrow> RandomSource \<Rightarrow> (nat \<Rightarrow> error + Scenario) \<Rightarrow>
   (PopulationStats list \<Rightarrow> nat \<Rightarrow> error + string) \<Rightarrow> AppState \<Rightarrow> AppState \<times> effect list" where
  "advanceGeneration c rs generateScenario getGeneticistAnalysis s =
     (if fcard (selectedIds s) < 2 then
        (s, [Alert ''Select at least 2 parents to breed! Use Auto-Select buttons below.''])
      else
        (let s1 = s\<lparr> isProcessing := True, showCrossInfo := True \<rparr>;
             parents = filter (\<lambda>p. plant_id p |\<in>| selectedIds s) (population s);
             (s', fx) =
               (case generateScenario (generation s + 1) of
                  Inl e \<Rightarrow> onError s1 e
                | Inr newScenario \<Rightarrow>
                    (let s2 = s1\<lparr> scenario := description newScenario \<rparr>;
                         newEnvVar = envImpact newScenario
                     in case breedNextGeneration c rs parents (generation s) newEnvVar of
                          Inl e \<Rightarrow> onError s2 e
                        | Inr nextGen \<Rightarrow>
                            (case calculateStats nextGen (generation s + 1) of
                               Inl e \<Rightarrow> onError s2 e
                             | Inr stats \<Rightarrow>
                                 (let s3 = s2\<lparr> population := nextGen,
                                               history := history s2 @ [stats],
                                               generation := generation s2 + 1,
                                               envVariance := newEnvVar,
                                               selectedIds := {||},
                                               lastSelectedPlant := None \<rparr>
                                  in case getGeneticistAnalysis (history s @ [stats]) (generation s + 1) of
                                       Inl e \<Rightarrow> onError s3 e
                                     | Inr analysis \<Rightarrow>
                                         (s3\<lparr> analysisMsg := analysis \<rparr>, [SetTimeout 2000])))))
         in (s'\<lparr> isProcessing := False \<rparr>, fx)))"

text \<open>
  \<open>resetSimulation\<close>, an event handler: when \<open>calculateStats\<close> throws, the
  \<open>setPopulation\<close> before it has already been queued.
\<close>

definition resetSimulation :: "Constants \<Rightarrow> RandomSource \<Rightarrow> AppState \<Rightarrow> AppState \<times> error option" where
  "resetSimulation c rs s =
     (let initPop = createInitialPopulation c rs (INITIAL_ENV_VARIANCE c)
      in case calculateStats initPop 1 of
           Inl e \<Rightarrow> (s\<lparr> population := initPop \<rparr>, Some e)
         | Inr initialStats \<Rightarrow>
             (s\<lparr> population := initPop, history := [initialStats], generation := 1,
                  envVariance := INITIAL_ENV_VARIANCE c, selectedIds := {||},
                  lastSelectedPlant := None, scenario := ''Normal Conditions'',
                  analysisMsg := ''Simulation reset. New F0 population created with high genetic diversity.'',
                  weather := sunny \<rparr>, None))"

section \<open>Invariants and fixtures\<close>

text \<open>
  The history holds one entry per generation, in order: the generations \<open>1\<close> up to
  the current one.
\<close>

definition historyOrdered :: "AppState \<Rightarrow> bool" where
  "historyOrdered s =
     (history s \<noteq> [] \<and> map stats_generation (history s) = [1..<Suc (generation s)])"

text \<open>A genome the engine accepts: allele pairs present, one per locus.\<close>

definition validGenome :: "Constants \<Rightarrow> Genome \<Rightarrow> bool" where
  "validGenome c g = (case diploid g of Some ps \<Rightarrow> length ps = numLoci c | None \<Rightarrow> False)"

text \<open>
  Concrete inputs for the examples: the 24-locus layout the genome viewer describes
  (loci 8-9 trade yield off against resistance, loci 20-21 link height to yield), on a
  field of four plants.
\<close>

definition exampleConstants :: Constants where
  "exampleConstants =
     \<lparr> POPULATION_SIZE = 4, INITIAL_ENV_VARIANCE = 1,
       YIELD_LOCI = [0..<8], RESISTANCE_LOCI = [8..<16], HEIGHT_LOCI = [16..<24],
       PLEIOTROPIC_YIELD_RESISTANCE = [8, 9], PLEIOTROPIC_HEIGHT_YIELD = [20, 21],
       effectWeight = (\<lambda>l. 1), tradeOffCoefficient = 1 / 2, linkCoefficient = 1 / 2,
       founderAllelePercent = 50, linkagePercent = 90 \<rparr>"

definition exampleRandom :: RandomSource where
  "exampleRandom = \<lparr> pick = (\<lambda>k. 7 * k + 3), gauss = (\<lambda>k. if even k then 1 else - 1) \<rparr>"

definition examplePlant :: "string \<Rightarrow> real \<Rightarrow> Plant" where
  "examplePlant ident y =
     \<lparr> plant_id = ident,
       genome = makeGenome (replicate 24 \<lparr> maternal = True, paternal = False \<rparr>),
       phenotype = \<lparr> yield = y, resistance = 5 - y, height = 20 + y \<rparr>,
       breedingValue = \<lparr> yield = 7, resistance = 8, height = 9 \<rparr>,
       isHeterozygous = True \<rparr>"

definition exampleState :: AppState where
  "exampleState =
     (initialState exampleConstants False)
       \<lparr> population := [examplePlant ''a'' 3, examplePlant ''b'' 1,
                        examplePlant ''c'' 4, examplePlant ''d'' 2],
         history := [\<lparr> stats_generation = 1, meanYield = 5 / 2, meanResistance = 5 / 2,
                       meanHeight = 45 / 2 \<rparr>],
         selectedIds := {|''a'', ''c''|} \<rparr>"

section \<open>Heterozygosity\<close>

lemma hetCount_le: "diploid g = Some ps \<Longrightarrow> hetCount g \<le> length ps"
  by (simp add: hetCount_def)

lemma hetCount_card:
  "diploid g = Some ps \<Longrightarrow>
   hetCount g = card {i. i < length ps \<and> maternal (ps ! i) \<noteq> paternal (ps ! i)}"
  by (simp add: hetCount_def length_filter_conv_card)

lemma hetCount_homozygous:
  "diploid g = Some ps \<Longrightarrow> \<forall>a \<in> set ps. maternal a = paternal a \<Longrightarrow> hetCount g = 0"
  by (simp add: hetCount_def)

lemma hetPercent_absent: "diploid g = None \<Longrightarrow> hetCount g = 0 \<and> hetPercent g = ''0''"
  by (simp add: hetCount_def hetPercent_def hetFraction_def)

text \<open>
  C6. For a genome with allele pairs \<open>ps\<close>, the heterozygosity the viewer reports is
  the number of loci whose maternal and paternal alleles differ divided by the number
  of loci (shown as a percentage with one decimal). On a non-empty genome this is a
  number between 0 and 1, and it is 0 when every locus has equal alleles. Only the
  empty genome has no numeric result: the division is \<open>0 / 0\<close> and the text shown is
  \<open>NaN\<close>.
\<close>

theorem heterozygosity_fraction:
  assumes "diploid g = Some ps"
  shows "hetCount g = card {i. i < length ps \<and> maternal (ps ! i) \<noteq> paternal (ps ! i)} \<and>
         (ps = [] \<longrightarrow> hetFraction g = Some NaN \<and> hetPercent g = ''NaN'') \<and>
         (ps \<noteq> [] \<longrightarrow>
            hetFraction g = Some (Num (real (hetCount g) / real (length ps))) \<and>
            0 \<le> real (hetCount g) / real (length ps) \<and>
            real (hetCount g) / real (length ps) \<le> 1 \<and>
            ((\<forall>a \<in> set ps. maternal a = paternal a) \<longrightarrow> hetFraction g = Some (Num 0)) \<and>
            hetPercent g = toFixed1 (Num (real (hetCount g) / real (length ps) * 100)))"
proof (cases "ps = []")
  case True
  with assms show ?thesis
    by (simp add: hetFraction_def hetPercent_def hetCount_def js_div_def times100_def toFixed1_def)
next
  case False
  let ?f = "real (hetCount g) / real (length ps)"
  have frac: "hetFraction g = Some (Num ?f)"
    using assms False by (simp add: hetFraction_def js_div_def)
  have le: "?f \<le> 1" using hetCount_le [OF assms] False by simp
  have zero: "(\<forall>a \<in> set ps. maternal a = paternal a) \<longrightarrow> hetFraction g = Some (Num 0)"
    using hetCount_homozygous [OF assms] frac by simp
  have pct: "hetPercent g = toFixed1 (Num (?f * 100))"
    using frac by (simp add: hetPercent_def times100_def)
  show ?thesis
    using False frac le zero pct hetCount_card [OF assms] by simp
qed

theorem heterozygosity_fraction_witness:
  "diploid (makeGenome [\<lparr>maternal = True, paternal = True\<rparr>, \<lparr>maternal = False, paternal = False\<rparr>])
     = Some [\<lparr>maternal = True, paternal = True\<rparr>, \<lparr>maternal = False, paternal = False\<rparr>] \<and>
   [\<lparr>maternal = True, paternal = True\<rparr>, \<lparr>maternal = False, paternal = False\<rparr>] \<noteq> [] \<and>
   list_all (\<lambda>a. maternal a = paternal a)
     [\<lparr>maternal = True, paternal = True\<rparr>, \<lparr>maternal = False, paternal = False\<rparr>] \<and>
   hetFraction (makeGenome [\<lparr>maternal = True, paternal = True\<rparr>, \<lparr>maternal = False, paternal = False\<rparr>])
     = Some (Num 0)"
proof -
  let ?P = "[\<lparr>maternal = True, paternal = True\<rparr>, \<lparr>maternal = False, paternal = False\<rparr>]"
  have d: "diploid (makeGenome ?P) = Some ?P" by (simp add: makeGenome_def)
  have hom: "\<forall>a \<in> set ?P. maternal a = paternal a" by simp
  have ne: "?P \<noteq> []" by simp
  note nonempty = heterozygosity_fraction [OF d, THEN conjunct2, THEN conjunct2, THEN mp, OF ne]
  note zero = nonempty [THEN conjunct2, THEN conjunct2, THEN conjunct2, THEN conjunct1, THEN mp, OF hom]
  have "list_all (\<lambda>a. maternal a = paternal a) ?P" by simp
  with d ne zero show ?thesis by (intro conjI)
qed

section \<open>Selecting plants by hand\<close>

text \<open>
  C10. One click on a plant toggles the membership of exactly that plant's id in the
  selection, leaves the membership of every other id as it was, and leaves the
  population, the history, the generation number and the environmental variance
  untouched.
\<close>

theorem handlePlantClick_toggles:
  "(ident |\<in>| selectedIds (handlePlantClick s ident) \<longleftrightarrow> ident |\<notin>| selectedIds s) \<and>
   (\<forall>other. other \<noteq> ident \<longrightarrow>
      (other |\<in>| selectedIds (handlePlantClick s ident) \<longleftrightarrow> other |\<in>| selectedIds s)) \<and>
   population (handlePlantClick s ident) = population s \<and>
   history (handlePlantClick s ident) = history s \<and>
   generation (handlePlantClick s ident) = generation s \<and>
   envVariance (handlePlantClick s ident) = envVariance s"
  by (cases "find (\<lambda>p. plant_id p = ident) (population s)")
     (simp_all add: handlePlantClick_def)

theorem handlePlantClick_toggles_witness:
  "''b'' \<noteq> ''a'' \<and>
   ''a'' |\<in>| selectedIds exampleState \<and>
   ''a'' |\<notin>| selectedIds (handlePlantClick exampleState ''a'') \<and>
   (''b'' |\<in>| selectedIds (handlePlantClick exampleState ''a'')
      \<longleftrightarrow> ''b'' |\<in>| selectedIds exampleState)"
proof -
  have a: "''a'' |\<in>| selectedIds exampleState" by (simp add: exampleState_def)
  have ne: "''b'' \<noteq> ''a''" by simp
  have t: "\<forall>other. other \<noteq> ''a'' \<longrightarrow>
      (other |\<in>| selectedIds (handlePlantClick exampleState ''a'') \<longleftrightarrow> other |\<in>| selectedIds exampleState)"
    and u: "''a'' |\<in>| selectedIds (handlePlantClick exampleState ''a'') \<longleftrightarrow> ''a'' |\<notin>| selectedIds exampleState"
    using handlePlantClick_toggles [of "''a''" exampleState] by simp_all
  from spec [OF t, of "''b''"] ne have "''b'' |\<in>| selectedIds (handlePlantClick exampleState ''a'')
      \<longleftrightarrow> ''b'' |\<in>| selectedIds exampleState" by simp
  with a ne u show ?thesis by simp
qed

section \<open>Advancing a generation\<close>

text \<open>
  C4. With fewer than two selected ids, \<open>advanceGeneration\<close> answers with an alert and
  returns the state it was given: no cell is written, and neither service nor the
  engine is called.
\<close>

theorem advanceGeneration_rejects_small_selection:
  assumes "fcard (selectedIds s) < 2"
  shows "advanceGeneration c rs generateScenario getGeneticistAnalysis s =
           (s, [Alert ''Select at least 2 parents to breed! Use Auto-Select buttons below.''])"
  using assms by (simp add: advanceGeneration_def)

theorem advanceGeneration_rejects_small_selection_witness:
  "fcard (selectedIds (handlePlantClick exampleState ''a'')) < 2 \<and>
   advanceGeneration exampleConstants exampleRandom (\<lambda>g. Inl ServiceFailure) (\<lambda>h g. Inl ServiceFailure)
       (handlePlantClick exampleState ''a'') =
     (handlePlantClick exampleState ''a'',
      [Alert ''Select at least 2 parents to breed! Use Auto-Select buttons below.''])"
proof -
  have h: "fcard (selectedIds (handlePlantClick exampleState ''a'')) < 2"
    by (simp add: handlePlantClick_def exampleState_def examplePlant_def fcard_finsert_if
        split: option.splits)
  from advanceGeneration_rejects_small_selection [OF h] h show ?thesis by simp
qed

section \<open>The genetics engine\<close>

lemma length_createInitialPopulation:
  "length (createInitialPopulation c rs e) = POPULATION_SIZE c"
  by (simp add: createInitialPopulation_def)

lemma length_formGamete: "length (formGamete c rs k l prev ps) = length ps"
  by (induction ps arbitrary: k l prev) (simp_all add: Let_def)

lemma validGenome_makeGenome: "validGenome c (makeGenome ps) \<longleftrightarrow> length ps = numLoci c"
  by (simp add: validGenome_def makeGenome_def)

lemma genome_makePlant: "genome (makePlant c rs k ident g e) = g"
  by (simp add: makePlant_def)

lemma cross_made: "cross c rs k ga gb = Inr g \<Longrightarrow> \<exists>ps. g = makeGenome ps \<and> length ps = numLoci c"
  by (auto simp: cross_def length_formGamete split: option.splits if_splits)

lemma cross_valid:
  assumes "validGenome c ga" and "validGenome c gb"
  shows "\<exists>g. cross c rs k ga gb = Inr g"
  using assms by (auto simp: cross_def validGenome_def split: option.splits)

lemma breedOne_made:
  "breedOne c rs parents gen e i = Inr p \<Longrightarrow> \<exists>ps. genome p = makeGenome ps \<and> length ps = numLoci c"
  by (auto simp: breedOne_def Let_def genome_makePlant split: sum.splits dest: cross_made)

lemma pick_two_in_range:
  assumes "2 \<le> (n::nat)"
  shows "r1 mod n < n"
    and "(if r1 mod n \<le> r2 mod (n - 1) then r2 mod (n - 1) + 1 else r2 mod (n - 1)) < n"
proof -
  from assms have "0 < n - 1" by simp
  then have "r2 mod (n - 1) < n - 1" by (rule mod_less_divisor)
  then show "(if r1 mod n \<le> r2 mod (n - 1) then r2 mod (n - 1) + 1 else r2 mod (n - 1)) < n"
    by (simp add: less_diff_conv)
  show "r1 mod n < n" using assms by simp
qed

lemma breedOne_valid:
  assumes "2 \<le> length parents" and "\<forall>p \<in> set parents. validGenome c (genome p)"
  shows "\<exists>p. breedOne c rs parents gen e i = Inr p"
proof -
  let ?n = "length parents"
  let ?k = "i * (2 * numLoci c + 2)"
  let ?a = "pick rs ?k mod ?n"
  let ?b0 = "pick rs (?k + 1) mod (?n - 1)"
  let ?b = "if ?a \<le> ?b0 then ?b0 + 1 else ?b0"
  have "?a < ?n" and "?b < ?n" using pick_two_in_range [OF assms(1)] by blast+
  then have "validGenome c (genome (parents ! ?a))" and "validGenome c (genome (parents ! ?b))"
    using assms(2) nth_mem by blast+
  from cross_valid [OF this] obtain g
    where "cross c rs (?k + 2) (genome (parents ! ?a)) (genome (parents ! ?b)) = Inr g"
    by blast
  then show ?thesis unfolding breedOne_def Let_def by (simp split del: if_split)
qed

lemma breedAll_total:
  assumes "2 \<le> length parents" and "\<forall>p \<in> set parents. validGenome c (genome p)"
  shows "\<exists>pop. breedAll c rs parents gen e is = Inr pop"
proof (induction "is")
  case Nil
  show ?case by simp
next
  case (Cons i "is")
  from breedOne_valid [OF assms] obtain p where "breedOne c rs parents gen e i = Inr p" by blast
  with Cons show ?case by auto
qed

lemma breedAll_result:
  "breedAll c rs parents gen e is = Inr pop \<Longrightarrow>
   length pop = length is \<and> (\<forall>p \<in> set pop. \<exists>ps. genome p = makeGenome ps \<and> length ps = numLoci c)"
proof (induction "is" arbitrary: pop)
  case Nil
  then show ?case by simp
next
  case (Cons i "is")
  from Cons.prems obtain p rest where p: "breedOne c rs parents gen e i = Inr p"
    and rest: "breedAll c rs parents gen e is = Inr rest" and pop: "pop = p # rest"
    by (auto split: sum.splits)
  from Cons.IH [OF rest] breedOne_made [OF p] pop show ?case by auto
qed

lemma breedNextGeneration_total:
  assumes "2 \<le> length parents" and "\<forall>p \<in> set parents. validGenome c (genome p)"
  shows "\<exists>pop. breedNextGeneration c rs parents gen e = Inr pop"
  using assms breedAll_total [OF assms] by (simp add: breedNextGeneration_def)

lemma breedNextGeneration_result:
  assumes "breedNextGeneration c rs parents gen e = Inr pop"
  shows "length pop = POPULATION_SIZE c"
    and "\<forall>p \<in> set pop. \<exists>ps. genome p = makeGenome ps \<and> length ps = numLoci c"
proof -
  from assms have "breedAll c rs parents (gen + 1) e [0..<POPULATION_SIZE c] = Inr pop"
    by (simp add: breedNextGeneration_def split: if_splits)
  from breedAll_result [OF this]
  show "length pop = POPULATION_SIZE c"
    and "\<forall>p \<in> set pop. \<exists>ps. genome p = makeGenome ps \<and> length ps = numLoci c"
    by simp_all
qed

lemma breedNextGeneration_rejects:
  "length parents < 2 \<Longrightarrow> breedNextGeneration c rs parents gen e = Inl InvalidInput"
  by (simp add: breedNextGeneration_def)

lemma createInitialPopulation_made:
  "p \<in> set (createInitialPopulation c rs e) \<Longrightarrow>
   \<exists>ps. genome p = makeGenome ps \<and> length ps = numLoci c"
  by (auto simp: createInitialPopulation_def genome_makePlant founderPairs_def)

text \<open>
  C5. The founder population has exactly \<open>POPULATION_SIZE\<close> plants, and for every
  set of at least two parents with well-formed genomes, every generation number and
  every environmental variance, \<open>breedNextGeneration\<close> returns a population, of
  exactly \<open>POPULATION_SIZE\<close> offspring. Founders and offspring have well-formed
  genomes again, so the size holds in every generation.
\<close>

theorem population_size_fixed:
  "length (createInitialPopulation c rs e) = POPULATION_SIZE c \<and>
   (\<forall>p \<in> set (createInitialPopulation c rs e). validGenome c (genome p)) \<and>
   (2 \<le> length parents \<and> (\<forall>p \<in> set parents. validGenome c (genome p)) \<longrightarrow>
      (\<exists>pop. breedNextGeneration c rs parents gen e' = Inr pop \<and>
             length pop = POPULATION_SIZE c \<and>
             (\<forall>p \<in> set pop. validGenome c (genome p))))"
proof (intro conjI impI)
  show "length (createInitialPopulation c rs e) = POPULATION_SIZE c"
    by (rule length_createInitialPopulation)
  show "\<forall>p \<in> set (createInitialPopulation c rs e). validGenome c (genome p)"
    using createInitialPopulation_made validGenome_makeGenome by metis
next
  assume a: "2 \<le> length parents \<and> (\<forall>p \<in> set parents. validGenome c (genome p))"
  then obtain pop where pop: "breedNextGeneration c rs parents gen e' = Inr pop"
    using breedNextGeneration_total by blast
  from breedNextGeneration_result [OF pop]
  have "length pop = POPULATION_SIZE c" and "\<forall>p \<in> set pop. validGenome c (genome p)"
    using validGenome_makeGenome by metis+
  with pop show "\<exists>pop. breedNextGeneration c rs parents gen e' = Inr pop \<and>
             length pop = POPULATION_SIZE c \<and> (\<forall>p \<in> set pop. validGenome c (genome p))"
    by blast
qed

lemma numLoci_example: "numLoci exampleConstants = 24"
  by (simp add: numLoci_def exampleConstants_def)

lemma validGenome_examplePlant: "validGenome exampleConstants (genome (examplePlant ident y))"
  by (simp add: examplePlant_def validGenome_makeGenome numLoci_example)

theorem population_size_fixed_witness:
  "2 \<le> length (population exampleState) \<and>
   list_all (\<lambda>p. validGenome exampleConstants (genome p)) (population exampleState) \<and>
   (\<exists>pop. breedNextGeneration exampleConstants exampleRandom (population exampleState) 1 2 = Inr pop \<and>
          length pop = POPULATION_SIZE exampleConstants)"
proof -
  have n: "2 \<le> length (population exampleState)" by (simp add: exampleState_def)
  have v: "list_all (\<lambda>p. validGenome exampleConstants (genome p)) (population exampleState)"
    by (simp add: exampleState_def validGenome_examplePlant)
  then have v': "\<forall>p \<in> set (population exampleState). validGenome exampleConstants (genome p)"
    by (simp add: list_all_iff)
  from n v' have "2 \<le> length (population exampleState) \<and>
     (\<forall>p \<in> set (population exampleState). validGenome exampleConstants (genome p))" ..
  with population_size_fixed [THEN conjunct2, THEN conjunct2, THEN mp,
      of "population exampleState" exampleConstants exampleRandom 1 2]
  obtain pop where "breedNextGeneration exampleConstants exampleRandom (population exampleState) 1 2 = Inr pop"
    and "length pop = POPULATION_SIZE exampleConstants"
    by blast
  with n v show ?thesis by blast
qed

lemma consistent_makeGenome:
  assumes "genome p = makeGenome ps"
  shows "diploid (genome p) = Some ps \<and>
         length (loci (genome p)) = length ps \<and>
         (\<forall>i<length ps.
            loci (genome p) ! i
              = (if maternal (ps ! i) then 1 else 0) + (if paternal (ps ! i) then 1 else 0) \<and>
            loci (genome p) ! i \<in> {0, 1, 2} \<and>
            (isHet (renderLocus c p i) \<longleftrightarrow> val (renderLocus c p i) = Some 1))"
  using assms by (auto simp: makeGenome_def dosage_def renderLocus_def nth_opt_def Let_def)

text \<open>
  C1. For every plant of a population made by the initializer or by
  \<open>breedNextGeneration\<close>, the allele pairs are present, the dosage sequence has one
  entry per pair, and at every locus the dosage is \<open>(maternal?1:0) + (paternal?1:0)\<close>, a
  value in \<open>{0,1,2}\<close>. The two representations agree in the viewer as well: the
  heterozygosity \<open>renderLocus\<close> reads off the pair is the one the dosage gives.
\<close>

theorem dosage_matches_allele_pairs:
  assumes "p \<in> set (createInitialPopulation c rs e) \<or>
           (breedNextGeneration c rs parents gen e = Inr pop \<and> p \<in> set pop)"
  shows "\<exists>ps. diploid (genome p) = Some ps \<and>
              length (loci (genome p)) = length ps \<and>
              (\<forall>i<length ps.
                 loci (genome p) ! i
                   = (if maternal (ps ! i) then 1 else 0) + (if paternal (ps ! i) then 1 else 0) \<and>
                 loci (genome p) ! i \<in> {0, 1, 2} \<and>
                 (isHet (renderLocus c p i) \<longleftrightarrow> val (renderLocus c p i) = Some 1))"
proof -
  from assms obtain ps where "genome p = makeGenome ps"
    using createInitialPopulation_made breedNextGeneration_result(2) by blast
  from consistent_makeGenome [OF this] show ?thesis by blast
qed

theorem dosage_matches_allele_pairs_witness:
  "createInitialPopulation exampleConstants exampleRandom 1 ! 0
     \<in> set (createInitialPopulation exampleConstants exampleRandom 1) \<and>
   (\<exists>ps. diploid (genome (createInitialPopulation exampleConstants exampleRandom 1 ! 0)) = Some ps \<and>
         length (loci (genome (createInitialPopulation exampleConstants exampleRandom 1 ! 0))) = length ps)"
proof -
  let ?p = "createInitialPopulation exampleConstants exampleRandom 1 ! 0"
  have "0 < length (createInitialPopulation exampleConstants exampleRandom 1)"
    by (simp add: length_createInitialPopulation exampleConstants_def)
  then have m: "?p \<in> set (createInitialPopulation exampleConstants exampleRandom 1)"
    by (rule nth_mem)
  then have "?p \<in> set (createInitialPopulation exampleConstants exampleRandom 1) \<or>
      (breedNextGeneration exampleConstants exampleRandom [] 0 1 = Inr [] \<and> ?p \<in> set [])" ..
  from dosage_matches_allele_pairs [OF this] m show ?thesis by blast
qed

text \<open>
  C2. The breeding values of a plant are the same whatever the environmental variance
  (and the random source) it is materialised under. At variance 0 every phenotype is
  the breeding value exactly, whatever is drawn. At a variance above 0 two
  computations can give different phenotypes, in each trait.
\<close>

theorem breeding_value_ignores_environment:
  "breedingValue (makePlant c rs k ident g e1) = breedingValue (makePlant c rs' k' ident' g e2) \<and>
   phenotype (makePlant c rs k ident g 0) = breedingValue (makePlant c rs k ident g 0) \<and>
   (\<forall>t z. calculatePhenotype c g 0 z t = calculateBreedingValue c g t) \<and>
   (0 < e \<longrightarrow>
      (\<exists>rs1 rs2.
         yield (phenotype (makePlant c rs1 k ident g e)) \<noteq> yield (phenotype (makePlant c rs2 k ident g e)) \<and>
         resistance (phenotype (makePlant c rs1 k ident g e))
           \<noteq> resistance (phenotype (makePlant c rs2 k ident g e)) \<and>
         height (phenotype (makePlant c rs1 k ident g e)) \<noteq> height (phenotype (makePlant c rs2 k ident g e))))"
proof (intro conjI impI allI)
  assume "0 < e"
  let ?r1 = "\<lparr> pick = (\<lambda>k. 0), gauss = (\<lambda>k. 0) \<rparr>"
  let ?r2 = "\<lparr> pick = (\<lambda>k. 0), gauss = (\<lambda>k. 1) \<rparr>"
  from \<open>0 < e\<close> have
    "yield (phenotype (makePlant c ?r1 k ident g e)) \<noteq> yield (phenotype (makePlant c ?r2 k ident g e)) \<and>
     resistance (phenotype (makePlant c ?r1 k ident g e))
       \<noteq> resistance (phenotype (makePlant c ?r2 k ident g e)) \<and>
     height (phenotype (makePlant c ?r1 k ident g e)) \<noteq> height (phenotype (makePlant c ?r2 k ident g e))"
    by (simp add: makePlant_def calculatePhenotype_def)
  then show "\<exists>rs1 rs2.
         yield (phenotype (makePlant c rs1 k ident g e)) \<noteq> yield (phenotype (makePlant c rs2 k ident g e)) \<and>
         resistance (phenotype (makePlant c rs1 k ident g e))
           \<noteq> resistance (phenotype (makePlant c rs2 k ident g e)) \<and>
         height (phenotype (makePlant c rs1 k ident g e)) \<noteq> height (phenotype (makePlant c rs2 k ident g e))"
    by blast
qed (simp_all add: makePlant_def calculatePhenotype_def)

theorem breeding_value_ignores_environment_witness:
  "(0::real) < 2 \<and>
   (\<exists>rs1 rs2.
      yield (phenotype (makePlant exampleConstants rs1 0 ''x'' (makeGenome []) 2))
        \<noteq> yield (phenotype (makePlant exampleConstants rs2 0 ''x'' (makeGenome []) 2)))"
proof -
  have pos: "(0::real) < 2" by simp
  from breeding_value_ignores_environment [where c = exampleConstants and g = "makeGenome []"
      and e = 2 and k = 0 and ident = "''x''",
      THEN conjunct2, THEN conjunct2, THEN conjunct2, THEN mp, OF pos] pos
  show ?thesis by blast
qed

section \<open>Pleiotropy\<close>

lemma weighted_sum_update:
  assumes "l < length xs"
  shows "(\<Sum>i\<leftarrow>[0..<length xs]. f i * real ((xs[l := d]) ! i))
         = (\<Sum>i\<leftarrow>[0..<length xs]. f i * real (xs ! i)) + f l * (real d - real (xs ! l))"
proof -
  let ?A = "{0..<length xs}"
  have fin: "finite ?A" and mem: "l \<in> ?A" using assms by simp_all
  have new: "(\<Sum>i\<in>?A. f i * real ((xs[l := d]) ! i))
             = f l * real d + (\<Sum>i\<in>?A - {l}. f i * real ((xs[l := d]) ! i))"
    using assms by (simp add: sum.remove [OF fin mem])
  have old: "(\<Sum>i\<in>?A. f i * real (xs ! i))
             = f l * real (xs ! l) + (\<Sum>i\<in>?A - {l}. f i * real (xs ! i))"
    by (simp add: sum.remove [OF fin mem])
  have same: "(\<Sum>i\<in>?A - {l}. f i * real ((xs[l := d]) ! i)) = (\<Sum>i\<in>?A - {l}. f i * real (xs ! i))"
    by (rule sum.cong) simp_all
  have "(\<Sum>i\<in>?A. f i * real ((xs[l := d]) ! i))
        = (\<Sum>i\<in>?A. f i * real (xs ! i)) + f l * (real d - real (xs ! l))"
    using new old same by (simp add: algebra_simps)
  then show ?thesis by (simp add: interv_sum_list_conv_sum_set_nat)
qed

lemma breedingValue_update:
  assumes "l < length (loci g)" and "loci g' = (loci g)[l := d]"
  shows "calculateBreedingValue c g' t
         = calculateBreedingValue c g t + locusEffect c t l * (real d - real (loci g ! l))"
  using weighted_sum_update [OF assms(1), of "locusEffect c t" d] assms(2)
  by (simp add: calculateBreedingValue_def)

lemma locusEffect_tradeOff:
  assumes "pleiotropicRelation c l = TradeOff a b"
  shows "locusEffect c a l = effectWeight c l"
    and "locusEffect c b l = - (tradeOffCoefficient c * effectWeight c l)"
  using assms by (auto simp: locusEffect_def pleiotropicRelation_def split: if_splits)

lemma locusEffect_positiveLink:
  assumes "pleiotropicRelation c l = PositiveLink a b"
  shows "locusEffect c a l = effectWeight c l"
    and "locusEffect c b l = linkCoefficient c * effectWeight c l"
  using assms by (auto simp: locusEffect_def pleiotropicRelation_def split: if_splits)

text \<open>
  C7. Raising the dosage at one locus, all other loci fixed, with non-negative effect
  weight and trade-off coefficient: at a trade-off locus the breeding values of the
  two linked traits do not both increase, and at a positive-link locus they do not
  both decrease.
\<close>

theorem pleiotropy_signs:
  assumes "0 \<le> effectWeight c l" and "0 \<le> tradeOffCoefficient c"
    and "l < length (loci g)" and "loci g' = (loci g)[l := d]" and "loci g ! l < d"
  shows "(pleiotropicRelation c l = TradeOff a b \<longrightarrow>
            \<not> (calculateBreedingValue c g a < calculateBreedingValue c g' a \<and>
               calculateBreedingValue c g b < calculateBreedingValue c g' b)) \<and>
         (pleiotropicRelation c l = PositiveLink a b \<longrightarrow>
            \<not> (calculateBreedingValue c g' a < calculateBreedingValue c g a \<and>
               calculateBreedingValue c g' b < calculateBreedingValue c g b))"
proof (intro conjI impI)
  let ?delta = "real d - real (loci g ! l)"
  have pos: "0 < ?delta" using assms(5) by simp
  note upd = breedingValue_update [OF assms(3,4), of c]
  {
    assume rel: "pleiotropicRelation c l = TradeOff a b"
    have "0 \<le> tradeOffCoefficient c * effectWeight c l * ?delta"
      using assms(1,2) pos by simp
    then have "calculateBreedingValue c g' b \<le> calculateBreedingValue c g b"
      by (simp add: upd locusEffect_tradeOff(2) [OF rel])
    then show "\<not> (calculateBreedingValue c g a < calculateBreedingValue c g' a \<and>
               calculateBreedingValue c g b < calculateBreedingValue c g' b)"
      by simp
  }
  {
    assume rel: "pleiotropicRelation c l = PositiveLink a b"
    have "0 \<le> effectWeight c l * ?delta" using assms(1) pos by simp
    then have "calculateBreedingValue c g a \<le> calculateBreedingValue c g' a"
      by (simp add: upd locusEffect_positiveLink(1) [OF rel])
    then show "\<not> (calculateBreedingValue c g' a < calculateBreedingValue c g a \<and>
               calculateBreedingValue c g' b < calculateBreedingValue c g b)"
      by simp
  }
qed

lemma relation_example: "pleiotropicRelation exampleConstants 8 = TradeOff Resistance Yield"
  by (simp add: pleiotropicRelation_def traitGroup_def exampleConstants_def)

theorem pleiotropy_signs_witness:
  "0 \<le> effectWeight exampleConstants 8 \<and> 0 \<le> tradeOffCoefficient exampleConstants \<and>
   8 < length (loci (genome (examplePlant ''a'' 3))) \<and>
   loci (genome (examplePlant ''a'' 3)) ! 8 < 2 \<and>
   pleiotropicRelation exampleConstants 8 = TradeOff Resistance Yield \<and>
   \<not> (calculateBreedingValue exampleConstants (genome (examplePlant ''a'' 3)) Resistance
        < calculateBreedingValue exampleConstants
            ((genome (examplePlant ''a'' 3))\<lparr> loci := (loci (genome (examplePlant ''a'' 3)))[8 := 2] \<rparr>)
            Resistance \<and>
      calculateBreedingValue exampleConstants (genome (examplePlant ''a'' 3)) Yield
        < calculateBreedingValue exampleConstants
            ((genome (examplePlant ''a'' 3))\<lparr> loci := (loci (genome (examplePlant ''a'' 3)))[8 := 2] \<rparr>)
            Yield)"
proof -
  let ?g = "genome (examplePlant ''a'' 3)"
  let ?g' = "?g\<lparr> loci := (loci ?g)[8 := 2] \<rparr>"
  have w: "0 \<le> effectWeight exampleConstants 8" and t: "0 \<le> tradeOffCoefficient exampleConstants"
    by (simp_all add: exampleConstants_def)
  have len: "8 < length (loci ?g)" by (simp add: examplePlant_def makeGenome_def)
  have upd: "loci ?g' = (loci ?g)[8 := 2]" by simp
  have inc: "loci ?g ! 8 < 2" by (simp add: examplePlant_def makeGenome_def dosage_def)
  note signs = pleiotropy_signs [OF w t len upd inc, THEN conjunct1, THEN mp, OF relation_example]
  from w t len inc relation_example signs show ?thesis by (intro conjI)
qed

section \<open>The history\<close>

lemma advanceGeneration_scenario_rejected:
  assumes "\<not> fcard (selectedIds s) < 2" and "generateScenario (generation s + 1) = Inl e"
  shows "advanceGeneration c rs generateScenario getGeneticistAnalysis s =
           (s\<lparr> showCrossInfo := True,
               analysisMsg := ''Analysis unavailable. Continue with phenotypic selection.'',
               isProcessing := False \<rparr>,
            [ConsoleError e])"
  using assms by (simp add: advanceGeneration_def onError_def)

lemma advanceGeneration_advances:
  assumes "\<not> fcard (selectedIds s) < 2"
    and "generateScenario (generation s + 1) = Inr sc"
    and "breedNextGeneration c rs (filter (\<lambda>p. plant_id p |\<in>| selectedIds s) (population s))
           (generation s) (envImpact sc) = Inr nextGen"
    and "calculateStats nextGen (generation s + 1) = Inr stats"
  shows "population (fst (advanceGeneration c rs generateScenario getGeneticistAnalysis s)) = nextGen \<and>
         history (fst (advanceGeneration c rs generateScenario getGeneticistAnalysis s)) = history s @ [stats] \<and>
         generation (fst (advanceGeneration c rs generateScenario getGeneticistAnalysis s)) = generation s + 1 \<and>
         envVariance (fst (advanceGeneration c rs generateScenario getGeneticistAnalysis s)) = envImpact sc"
  using assms
  by (cases "getGeneticistAnalysis (history s @ [stats]) (generation s + 1)")
     (simp_all add: advanceGeneration_def onError_def)

lemma advanceGeneration_cases:
  "(history (fst (advanceGeneration c rs gs ga s)) = history s \<and>
    generation (fst (advanceGeneration c rs gs ga s)) = generation s \<and>
    population (fst (advanceGeneration c rs gs ga s)) = population s \<and>
    envVariance (fst (advanceGeneration c rs gs ga s)) = envVariance s) \<or>
   (\<exists>sc nextGen stats.
      gs (generation s + 1) = Inr sc \<and>
      breedNextGeneration c rs (filter (\<lambda>p. plant_id p |\<in>| selectedIds s) (population s))
           (generation s) (envImpact sc) = Inr nextGen \<and>
      calculateStats nextGen (generation s + 1) = Inr stats \<and>
      history (fst (advanceGeneration c rs gs ga s)) = history s @ [stats] \<and>
      generation (fst (advanceGeneration c rs gs ga s)) = generation s + 1 \<and>
      population (fst (advanceGeneration c rs gs ga s)) = nextGen \<and>
      envVariance (fst (advanceGeneration c rs gs ga s)) = envImpact sc)"
proof (cases "fcard (selectedIds s) < 2")
  case True
  then show ?thesis by (simp add: advanceGeneration_def)
next
  case sel: False
  show ?thesis
  proof (cases "gs (generation s + 1)")
    case (Inl e)
    with sel show ?thesis by (simp add: advanceGeneration_def onError_def)
  next
    case (Inr sc)
    note scen = this
    let ?parents = "filter (\<lambda>p. plant_id p |\<in>| selectedIds s) (population s)"
    show ?thesis
    proof (cases "breedNextGeneration c rs ?parents (generation s) (envImpact sc)")
      case (Inl e)
      with sel scen show ?thesis by (simp add: advanceGeneration_def onError_def)
    next
      case (Inr nextGen)
      note bred = this
      show ?thesis
      proof (cases "calculateStats nextGen (generation s + 1)")
        case (Inl e)
        with sel scen bred show ?thesis by (simp add: advanceGeneration_def onError_def)
      next
        case (Inr stats)
        from advanceGeneration_advances [where generateScenario = gs and getGeneticistAnalysis = ga, OF sel scen bred Inr] scen bred Inr
        show ?thesis by blast
      qed
    qed
  qed
qed

lemma calculateStats_generation:
  "calculateStats pop gen = Inr st \<Longrightarrow> stats_generation st = gen"
  by (auto simp: calculateStats_def split: if_splits)

lemma historyOrdered_last:
  "historyOrdered s \<Longrightarrow> stats_generation (last (history s)) = generation s"
proof -
  assume h: "historyOrdered s"
  then have ne: "history s \<noteq> []" and m: "map stats_generation (history s) = [1..<Suc (generation s)]"
    by (simp_all add: historyOrdered_def)
  from ne have "stats_generation (last (history s)) = last (map stats_generation (history s))"
    by (simp add: last_map)
  also have "\<dots> = last [1..<Suc (generation s)]" by (simp add: m)
  also have "\<dots> = generation s" using ne m by (cases "generation s") auto
  finally show ?thesis .
qed

text \<open>
  C8. From a state whose history is ordered (one entry per generation, 1 up to the
  current one), \<open>advanceGeneration\<close> either leaves history and generation number as
  they are, or raises the generation number by one and appends exactly one entry,
  whose generation number is one more than that of the last entry. Entries already
  there are kept as they are, and the history stays ordered.
\<close>

theorem history_append_only:
  assumes "historyOrdered s"
  shows "historyOrdered (fst (advanceGeneration c rs gs ga s)) \<and>
         ((generation (fst (advanceGeneration c rs gs ga s)) = generation s \<and>
           history (fst (advanceGeneration c rs gs ga s)) = history s) \<or>
          (generation (fst (advanceGeneration c rs gs ga s)) = Suc (generation s) \<and>
           (\<exists>st. history (fst (advanceGeneration c rs gs ga s)) = history s @ [st] \<and>
                 stats_generation st = Suc (stats_generation (last (history s))))))"
proof -
  let ?s' = "fst (advanceGeneration c rs gs ga s)"
  from advanceGeneration_cases [of c rs gs ga s]
  consider (same) "history ?s' = history s" "generation ?s' = generation s"
    | (app) stats nextGen where "calculateStats nextGen (generation s + 1) = Inr stats"
        "history ?s' = history s @ [stats]" "generation ?s' = generation s + 1"
    by blast
  then show ?thesis
  proof cases
    case same
    with assms show ?thesis by (simp add: historyOrdered_def)
  next
    case app
    have g: "stats_generation stats = Suc (generation s)"
      using calculateStats_generation [OF app(1)] by simp
    have "historyOrdered ?s'"
      using assms app(2,3) g by (simp add: historyOrdered_def)
    moreover have "stats_generation stats = Suc (stats_generation (last (history s)))"
      using g historyOrdered_last [OF assms] by simp
    ultimately show ?thesis using app(2,3) by simp
  qed
qed

section \<open>Automatic selection\<close>

lemma selectionCount_bounds:
  assumes "0 \<le> selectionIntensity s"
  shows "0 \<le> selectionCount c s"
    and "selectionIntensity s \<le> 1 \<Longrightarrow> selectionCount c s \<le> int (POPULATION_SIZE c)"
proof -
  have "0 \<le> real (POPULATION_SIZE c) * selectionIntensity s" using assms by simp
  then show "0 \<le> selectionCount c s" by (simp add: selectionCount_def)
  assume "selectionIntensity s \<le> 1"
  then have "real (POPULATION_SIZE c) * selectionIntensity s \<le> real (POPULATION_SIZE c)"
    by (simp add: mult_left_le)
  then show "selectionCount c s \<le> int (POPULATION_SIZE c)"
    by (simp add: selectionCount_def ceiling_le_iff)
qed

lemma mset_sorted_plants: "mset (sorted_plants s t) = mset (population s)"
  by (simp add: sorted_plants_def)

lemma getValue_selection: "getValue (s\<lparr> selectedIds := previous \<rparr>) = getValue s"
proof (intro ext)
  fix t p
  have "traitSource (s\<lparr> selectedIds := previous \<rparr>) p = traitSource s p"
    by (simp add: traitSource_def)
  then show "getValue (s\<lparr> selectedIds := previous \<rparr>) t p = getValue s t p"
    by (cases t) (simp_all add: getValue_def)
qed

lemma sorted_plants_selection:
  "sorted_plants (s\<lparr> selectedIds := previous \<rparr>) t = sorted_plants s t"
  by (simp add: sorted_plants_def getValue_selection)

lemma sorted_plants_order:
  assumes "p \<in> set (take n (sorted_plants s t))" and "q \<in> set (drop n (sorted_plants s t))"
  shows "if t = SelHeight then getValue s t p \<le> getValue s t q else getValue s t q \<le> getValue s t p"
proof -
  define key where "key = (if t = SelHeight then getValue s t else (\<lambda>p. - getValue s t p))"
  have "sorted_plants s t = sort_key key (population s)"
    by (simp add: sorted_plants_def key_def)
  then have "sorted (map key (sorted_plants s t))" by simp
  then have "sorted (map key (take n (sorted_plants s t)) @ map key (drop n (sorted_plants s t)))"
    by (simp flip: map_append)
  then have "\<forall>x \<in> set (map key (take n (sorted_plants s t))).
             \<forall>y \<in> set (map key (drop n (sorted_plants s t))). x \<le> y"
    by (simp add: sorted_append)
  with assms have "key p \<le> key q" by simp
  then show ?thesis by (simp add: key_def split: if_splits)
qed

lemma fcard_ids:
  assumes "distinct (map plant_id xs)"
  shows "fcard (fset_of_list (map plant_id xs)) = length xs"
proof -
  have "fcard (fset_of_list (map plant_id xs)) = card (set (map plant_id xs))"
    by (simp add: fcard.rep_eq fset_of_list.rep_eq)
  also have "\<dots> = length (map plant_id xs)" using assms by (rule distinct_card)
  finally show ?thesis by simp
qed

lemma distinct_ids_sorted:
  assumes "distinct (map plant_id (population s))"
  shows "distinct (map plant_id (take n (sorted_plants s t)))"
proof -
  have "mset (map plant_id (sorted_plants s t)) = mset (map plant_id (population s))"
    by (simp add: mset_sorted_plants)
  from mset_eq_imp_distinct_iff [OF this] assms
  have "distinct (map plant_id (sorted_plants s t))" by (rule iffD2)
  then have "distinct (take n (map plant_id (sorted_plants s t)))" by (rule distinct_take)
  then show ?thesis by (simp add: take_map)
qed

text \<open>
  C9. \<open>autoSelectByTrait(t)\<close> replaces the selection by the ids of a group
  \<open>chosen\<close> of plants that splits the population into \<open>chosen\<close> and \<open>rest\<close>:
  \<open>chosen\<close> has \<open>ceil(POPULATION_SIZE * selectionIntensity)\<close> plants, the selection
  has as many ids whatever was selected before, and every chosen plant ranks at least
  as well as every other one:
  not lower for yield, resistance and the weighted index, not higher for height. The
  ranking value is read from the breeding values under genomic selection and from the
  phenotypes otherwise. This holds when the ids of the population are distinct, the
  intensity is not negative and the population has at least that many plants.
\<close>

theorem autoSelectByTrait_selects_best:
  assumes "distinct (map plant_id (population s))"
    and "0 \<le> selectionIntensity s"
    and "selectionCount c s \<le> int (length (population s))"
  shows "\<exists>chosen rest.
           mset chosen + mset rest = mset (population s) \<and>
           int (length chosen) = \<lceil>real (POPULATION_SIZE c) * selectionIntensity s\<rceil> \<and>
           selectedIds (autoSelectByTrait c s t) = fset_of_list (map plant_id chosen) \<and>
           fcard (selectedIds (autoSelectByTrait c s t)) = length chosen \<and>
           selectedIds (autoSelectByTrait c (s\<lparr> selectedIds := previous \<rparr>) t)
             = selectedIds (autoSelectByTrait c s t) \<and>
           (\<forall>p \<in> set chosen. \<forall>q \<in> set rest.
              if t = SelHeight then getValue s t p \<le> getValue s t q
              else getValue s t q \<le> getValue s t p) \<and>
           (\<forall>p. getValue s SelYield p
                  = yield (if genomicSelectionEnabled s then breedingValue p else phenotype p) \<and>
                getValue s SelResistance p
                  = resistance (if genomicSelectionEnabled s then breedingValue p else phenotype p) \<and>
                getValue s SelHeight p
                  = height (if genomicSelectionEnabled s then breedingValue p else phenotype p) \<and>
                getValue s SelOptimum p
                  = yield (if genomicSelectionEnabled s then breedingValue p else phenotype p) * (5 / 10)
                    + resistance (if genomicSelectionEnabled s then breedingValue p else phenotype p) * (3 / 10)
                    + height (if genomicSelectionEnabled s then breedingValue p else phenotype p) / 3 * (2 / 10))"
proof -
  define n where "n = nat (selectionCount c s)"
  define chosen where "chosen = take n (sorted_plants s t)"
  define rest where "rest = drop n (sorted_plants s t)"
  note b = selectionCount_bounds(1) [OF assms(2), of c]
  have len_sorted: "length (sorted_plants s t) = length (population s)"
    using mset_sorted_plants [of s t] by (metis size_mset)
  have n_le: "n \<le> length (population s)" using b assms(3) by (simp add: n_def)
  have m: "mset chosen + mset rest = mset (population s)"
    unfolding chosen_def rest_def by (simp flip: mset_append add: mset_sorted_plants)
  have l: "int (length chosen) = \<lceil>real (POPULATION_SIZE c) * selectionIntensity s\<rceil>"
    using n_le len_sorted b by (simp add: chosen_def n_def selectionCount_def)
  have sel: "selectedIds (autoSelectByTrait c s t) = fset_of_list (map plant_id chosen)"
    using b by (simp add: autoSelectByTrait_def slice0_def chosen_def n_def)
  have fc: "fcard (selectedIds (autoSelectByTrait c s t)) = length chosen"
    unfolding sel chosen_def by (rule fcard_ids) (rule distinct_ids_sorted [OF assms(1)])
  have indep: "selectedIds (autoSelectByTrait c (s\<lparr> selectedIds := previous \<rparr>) t)
             = selectedIds (autoSelectByTrait c s t)"
    by (simp add: autoSelectByTrait_def sorted_plants_selection selectionCount_def)
  have ord: "\<forall>p \<in> set chosen. \<forall>q \<in> set rest.
              if t = SelHeight then getValue s t p \<le> getValue s t q
              else getValue s t q \<le> getValue s t p"
    unfolding chosen_def rest_def using sorted_plants_order by blast
  have gv: "\<forall>p. getValue s SelYield p
                  = yield (if genomicSelectionEnabled s then breedingValue p else phenotype p) \<and>
                getValue s SelResistance p
                  = resistance (if genomicSelectionEnabled s then breedingValue p else phenotype p) \<and>
                getValue s SelHeight p
                  = height (if genomicSelectionEnabled s then breedingValue p else phenotype p) \<and>
                getValue s SelOptimum p
                  = yield (if genomicSelectionEnabled s then breedingValue p else phenotype p) * (5 / 10)
                    + resistance (if genomicSelectionEnabled s then breedingValue p else phenotype p) * (3 / 10)
                    + height (if genomicSelectionEnabled s then breedingValue p else phenotype p) / 3 * (2 / 10)"
    by (simp add: getValue_def traitSource_def)
  from m l sel fc indep ord gv show ?thesis by blast
qed


lemma count_example: "selectionCount exampleConstants exampleState = 1"
  by (simp add: selectionCount_def exampleConstants_def exampleState_def initialState_def)

lemma sorted_example:
  "sorted_plants exampleState SelYield
     = [examplePlant ''c'' 4, examplePlant ''a'' 3, examplePlant ''d'' 2, examplePlant ''b'' 1]"
  by (simp add: sorted_plants_def exampleState_def initialState_def getValue_def traitSource_def
      examplePlant_def)

theorem autoSelectByTrait_selects_best_witness:
  "distinct (map plant_id (population exampleState)) \<and>
   0 \<le> selectionIntensity exampleState \<and>
   selectionCount exampleConstants exampleState \<le> int (length (population exampleState)) \<and>
   fcard (selectedIds (autoSelectByTrait exampleConstants exampleState SelYield)) = 1 \<and>
   selectedIds (autoSelectByTrait exampleConstants exampleState SelYield) = {|''c''|}"
proof -
  have d: "distinct (map plant_id (population exampleState))"
    by (simp add: exampleState_def examplePlant_def)
  have i: "0 \<le> selectionIntensity exampleState"
    by (simp add: exampleState_def initialState_def)
  have n: "selectionCount exampleConstants exampleState \<le> int (length (population exampleState))"
  proof -
    have "length (population exampleState) = 4" by (simp add: exampleState_def)
    then show ?thesis by (simp add: count_example)
  qed
  from autoSelectByTrait_selects_best [OF d i n, of SelYield]
  obtain chosen :: "Plant list" where "int (length chosen)
        = \<lceil>real (POPULATION_SIZE exampleConstants) * selectionIntensity exampleState\<rceil>"
    and "fcard (selectedIds (autoSelectByTrait exampleConstants exampleState SelYield)) = length chosen"
    by blast
  then have f: "fcard (selectedIds (autoSelectByTrait exampleConstants exampleState SelYield)) = 1"
    using count_example by (simp add: selectionCount_def)
  have e: "selectedIds (autoSelectByTrait exampleConstants exampleState SelYield) = {|''c''|}"
    by (simp add: autoSelectByTrait_def sorted_example count_example slice0_def examplePlant_def)
  from d i n f e show ?thesis by (intro conjI)
qed

lemma parents_of_selection:
  assumes "fset (selectedIds s) \<subseteq> plant_id ` set (population s)"
  shows "fcard (selectedIds s)
         \<le> length (filter (\<lambda>p. plant_id p |\<in>| selectedIds s) (population s))"
proof -
  let ?ps = "filter (\<lambda>p. plant_id p |\<in>| selectedIds s) (population s)"
  have "fset (selectedIds s) = plant_id ` set ?ps" using assms by auto
  then have "fcard (selectedIds s) = card (plant_id ` set ?ps)" by (simp add: fcard.rep_eq)
  also have "\<dots> \<le> card (set ?ps)" by (rule card_image_le) simp
  also have "\<dots> \<le> length ?ps" by (rule card_length)
  finally show ?thesis .
qed

lemma calculateStats_total: "pop \<noteq> [] \<Longrightarrow> \<exists>st. calculateStats pop gen = Inr st"
  by (simp add: calculateStats_def)

lemma advanceGeneration_survives_analysis_failure:
  assumes sel: "2 \<le> fcard (selectedIds s)"
    and ids: "fset (selectedIds s) \<subseteq> plant_id ` set (population s)"
    and valid: "\<forall>p \<in> set (population s). validGenome c (genome p)"
    and size: "0 < POPULATION_SIZE c"
    and scen: "gs (generation s + 1) = Inr sc"
  shows "length (population (fst (advanceGeneration c rs gs ga s))) = POPULATION_SIZE c \<and>
         (\<exists>st. history (fst (advanceGeneration c rs gs ga s)) = history s @ [st]) \<and>
         generation (fst (advanceGeneration c rs gs ga s)) = generation s + 1 \<and>
         envVariance (fst (advanceGeneration c rs gs ga s)) = envImpact sc"
proof -
  let ?parents = "filter (\<lambda>p. plant_id p |\<in>| selectedIds s) (population s)"
  have two: "2 \<le> length ?parents" using sel parents_of_selection [OF ids] by simp
  have v: "\<forall>p \<in> set ?parents. validGenome c (genome p)" using valid by simp
  from breedNextGeneration_total [OF two v] obtain nextGen
    where bred: "breedNextGeneration c rs ?parents (generation s) (envImpact sc) = Inr nextGen"
    by blast
  from breedNextGeneration_result(1) [OF bred] size have len: "length nextGen = POPULATION_SIZE c"
    and "nextGen \<noteq> []" by auto
  from calculateStats_total [OF this(2)] obtain st
    where st: "calculateStats nextGen (generation s + 1) = Inr st" by blast
  from sel have nsel: "\<not> fcard (selectedIds s) < 2" by simp
  from advanceGeneration_advances [where generateScenario = gs and getGeneticistAnalysis = ga,
      OF nsel scen bred st] len
  show ?thesis by simp
qed

lemma historyOrdered_example: "historyOrdered exampleState"
  by (simp add: historyOrdered_def exampleState_def initialState_def)

lemma fcard_example: "fcard (selectedIds exampleState) = 2"
  by (simp add: exampleState_def fcard_finsert_if)

theorem history_append_only_witness:
  "historyOrdered exampleState \<and>
   historyOrdered (fst (advanceGeneration exampleConstants exampleRandom
      (\<lambda>g. Inr \<lparr> description = ''Drought'', envImpact = 2 \<rparr>) (\<lambda>h g. Inl ServiceFailure)
      exampleState)) \<and>
   generation (fst (advanceGeneration exampleConstants exampleRandom
      (\<lambda>g. Inr \<lparr> description = ''Drought'', envImpact = 2 \<rparr>) (\<lambda>h g. Inl ServiceFailure)
      exampleState)) = 2"
proof -
  let ?gs = "\<lambda>g::nat. Inr \<lparr> description = ''Drought'', envImpact = 2 \<rparr> :: error + Scenario"
  let ?ga = "\<lambda>(h::PopulationStats list) (g::nat). Inl ServiceFailure :: error + string"
  have sel: "2 \<le> fcard (selectedIds exampleState)" by (simp add: fcard_example)
  have ids: "fset (selectedIds exampleState) \<subseteq> plant_id ` set (population exampleState)"
    by (simp add: exampleState_def examplePlant_def)
  have valid: "\<forall>p \<in> set (population exampleState). validGenome exampleConstants (genome p)"
    by (simp add: exampleState_def validGenome_examplePlant)
  have size: "0 < POPULATION_SIZE exampleConstants" by (simp add: exampleConstants_def)
  have scen: "?gs (generation exampleState + 1) = Inr \<lparr> description = ''Drought'', envImpact = 2 \<rparr>"
    by simp
  have "generation (fst (advanceGeneration exampleConstants exampleRandom ?gs ?ga exampleState))
        = generation exampleState + 1"
    using advanceGeneration_survives_analysis_failure [where gs = ?gs and ga = ?ga,
        OF sel ids valid size scen] by simp
  then have g: "generation (fst (advanceGeneration exampleConstants exampleRandom ?gs ?ga exampleState)) = 2"
    by (simp add: exampleState_def initialState_def)
  from history_append_only [OF historyOrdered_example, of exampleConstants exampleRandom ?gs ?ga]
  have "historyOrdered (fst (advanceGeneration exampleConstants exampleRandom ?gs ?ga exampleState))"
    by (rule conjunct1)
  with historyOrdered_example g show ?thesis by (intro conjI)
qed

section \<open>Failing services\<close>

text \<open>
  C3. Required: with at least two selected parents, no failure of a service keeps an
  advancement from updating population, history and generation number.
  \<open>advanceGeneration\<close> does not meet this for the scenario service, which it awaits
  before it breeds: on the example state, with two selected parents and a
  \<open>generateScenario\<close> whose promise rejects, it ends in the \<open>catch\<close> block with
  population, history and generation number as they were. (A failure of the analysis
  service comes after the update and is absorbed:
  \<open>advanceGeneration_survives_analysis_failure\<close>.)
\<close>

theorem advanceGeneration_blocked_by_scenario_failure:
  "fcard (selectedIds exampleState) = 2 \<and>
   advanceGeneration exampleConstants exampleRandom (\<lambda>g. Inl ServiceFailure)
       (\<lambda>h g. Inr ''Steady genetic gain.'') exampleState
     = (exampleState\<lparr> showCrossInfo := True,
          analysisMsg := ''Analysis unavailable. Continue with phenotypic selection.'' \<rparr>,
        [ConsoleError ServiceFailure]) \<and>
   population (fst (advanceGeneration exampleConstants exampleRandom (\<lambda>g. Inl ServiceFailure)
       (\<lambda>h g. Inr ''Steady genetic gain.'') exampleState)) = population exampleState \<and>
   history (fst (advanceGeneration exampleConstants exampleRandom (\<lambda>g. Inl ServiceFailure)
       (\<lambda>h g. Inr ''Steady genetic gain.'') exampleState)) = history exampleState \<and>
   generation (fst (advanceGeneration exampleConstants exampleRandom (\<lambda>g. Inl ServiceFailure)
       (\<lambda>h g. Inr ''Steady genetic gain.'') exampleState)) = generation exampleState"
proof -
  let ?gs = "\<lambda>g::nat. Inl ServiceFailure :: error + Scenario"
  let ?ga = "\<lambda>(h::PopulationStats list) (g::nat). Inr ''Steady genetic gain.'' :: error + string"
  have nsel: "\<not> fcard (selectedIds exampleState) < 2" by (simp add: fcard_example)
  have scen: "?gs (generation exampleState + 1) = Inl ServiceFailure" by simp
  note r = advanceGeneration_scenario_rejected [where generateScenario = ?gs
      and getGeneticistAnalysis = ?ga and c = exampleConstants and rs = exampleRandom,
      OF nsel scen]
  have p: "isProcessing exampleState = False" by (simp add: exampleState_def initialState_def)
  have e: "advanceGeneration exampleConstants exampleRandom ?gs ?ga exampleState
     = (exampleState\<lparr> showCrossInfo := True,
          analysisMsg := ''Analysis unavailable. Continue with phenotypic selection.'' \<rparr>,
        [ConsoleError ServiceFailure])"
    unfolding r using p by simp
  show ?thesis unfolding e using fcard_example by simp
qed

section \<open>What every reachable state keeps\<close>

lemma advanceGeneration_population_size:
  assumes "length (population s) = POPULATION_SIZE c"
  shows "length (population (fst (advanceGeneration c rs gs ga s))) = POPULATION_SIZE c"
proof -
  from advanceGeneration_cases [of c rs gs ga s]
  consider (same) "population (fst (advanceGeneration c rs gs ga s)) = population s"
    | (bred) parents e nextGen where "breedNextGeneration c rs parents (generation s) e = Inr nextGen"
        "population (fst (advanceGeneration c rs gs ga s)) = nextGen"
    by blast
  then show ?thesis
  proof cases
    case same
    with assms show ?thesis by simp
  next
    case bred
    from breedNextGeneration_result(1) [OF bred(1)] bred(2) show ?thesis by simp
  qed
qed

lemma initialize_establishes:
  assumes "initialize c rs (initialState c apiConf) = Inr s"
  shows "length (population s) = POPULATION_SIZE c" and "historyOrdered s"
proof -
  let ?pop = "createInitialPopulation c rs (INITIAL_ENV_VARIANCE c)"
  from assms obtain st where st: "calculateStats ?pop 1 = Inr st"
    and s: "s = (initialState c apiConf)\<lparr> population := ?pop, history := [st],
         analysisMsg := ''Welcome, Breeder! F0 population initialized. High genetic variance (sigma^2 G) present. Use GEBV view to see true breeding values. Select parents carefully considering trait linkages.'',
         weather := sunny \<rparr>"
    by (auto simp: initialize_def initialState_def Let_def split: sum.splits)
  show "length (population s) = POPULATION_SIZE c"
    by (simp add: s length_createInitialPopulation)
  show "historyOrdered s"
    using calculateStats_generation [OF st] by (simp add: s historyOrdered_def initialState_def)
qed

lemma toFixed1_example: "toFixed1 (Num (100 / 3)) = ''33.3''"
  by (simp add: toFixed1_def show_nat.simps [of 33] show_nat.simps [of 3])

end
